theory Spec2Isabelle
  imports Complex_Main "HOL-Library.List_Lexorder" "HOL-Library.Char_ord"
begin

section \<open>Values of the callback request\<close>

text \<open>
  The fields of \<open>req.body\<close> are scalars of the JavaScript runtime. A field that the
  sender left out reads as \<open>undefined\<close>. Strings are lists of single-byte characters,
  ordered character by character (\<open>List_Lexorder\<close> over \<open>Char_ord\<close>), which is the
  order \<open>Array.prototype.sort\<close> uses for such strings. A number is given by the text
  the runtime prints for it (\<open>Number.prototype.toString\<close>: \<open>6900\<close>, \<open>0.5\<close>,
  \<open>1e+21\<close>); the handler never computes with a number, it prints it and compares it
  with strings, \<open>null\<close> and \<open>undefined\<close>, from which every number differs.
\<close>

datatype jsval = Undefined | Null | Bool bool | Num string | Str string

text \<open>The conversion a template literal \<open>`${v}`\<close> applies to \<open>v\<close>.\<close>

fun to_string :: "jsval \<Rightarrow> string" where
  "to_string Undefined = ''undefined''"
| "to_string Null = ''null''"
| "to_string (Bool b) = (if b then ''true'' else ''false'')"
| "to_string (Num printed) = printed"
| "to_string (Str s) = s"

section \<open>calculateSign\<close>

text \<open>
  An object literal is an association list in insertion order, with distinct keys.
  \<open>params[k]\<close> is \<open>undefined\<close> for a key the object does not have.
\<close>

type_synonym params = "(string \<times> jsval) list"

definition param_at :: "params \<Rightarrow> string \<Rightarrow> jsval" where
  "param_at params k = (case map_of params k of None \<Rightarrow> Undefined | Some v \<Rightarrow> v)"

text \<open>\<open>Array.prototype.join\<close> with a separator.\<close>

fun join :: "string \<Rightarrow> string list \<Rightarrow> string" where
  "join sep [] = []"
| "join sep [x] = x"
| "join sep (x # y # ys) = x @ sep @ join sep (y # ys)"

text \<open>
  \<open>String.prototype.toUpperCase\<close> on single-byte characters: a letter from a to z loses
  the bit of value 32, every other character stays.
\<close>

definition upper_char :: "char \<Rightarrow> char" where
  "upper_char c =
     (if CHR ''a'' \<le> c \<and> c \<le> CHR ''z'' then (case c of Char b0 b1 b2 b3 b4 b5 b6 b7 \<Rightarrow> Char b0 b1 b2 b3 b4 False b6 b7)
      else c)"

definition toUpperCase :: "string \<Rightarrow> string" where
  "toUpperCase s = map upper_char s"

text \<open>
  The string that is hashed (\<open>fullStr\<close> in the source): the keys are sorted first and
  filtered afterwards, as the source does.
\<close>

definition signStr :: "params \<Rightarrow> string" where
  "signStr params =
     (let sortedKeys = sort (map fst params)
      in join ''&''
           (map (\<lambda>k. k @ ''='' @ to_string (param_at params k))
              (filter (\<lambda>k. k \<noteq> ''sign'' \<and> param_at params k \<noteq> Str '''' \<and> param_at params k \<noteq> Null
                            \<and> param_at params k \<noteq> Undefined)
                 sortedKeys)))"

definition fullStr :: "params \<Rightarrow> string \<Rightarrow> string" where
  "fullStr params key = signStr params @ ''&key='' @ key"

text \<open>
  \<open>crypto.createHash('md5').update(s).digest('hex')\<close> belongs to the runtime, not to the
  repository: it is the parameter \<open>md5hex\<close>.
\<close>

definition calculateSign :: "(string \<Rightarrow> string) \<Rightarrow> params \<Rightarrow> string \<Rightarrow> string" where
  "calculateSign md5hex params key = toUpperCase (md5hex (fullStr params key))"

section \<open>The attachment\<close>

text \<open>
  What \<open>JSON.parse\<close> returns; an object is the list of its own properties, each name
  once. \<open>JSON.parse\<close> itself belongs to the runtime: it is the parameter \<open>JSON_parse\<close> of
  the handler, \<open>None\<close> when it throws.
\<close>

datatype json =
    JNull
  | JBool bool
  | JNumber real
  | JString string
  | JArray "json list"
  | JObject "(string \<times> json) list"

text \<open>
  Reading a property while destructuring \<open>const { userId, productType } = attachData\<close>:
  \<open>None\<close> is \<open>undefined\<close>. Only an object has own properties of these names.
  (Destructuring \<open>null\<close> throws; the handler treats that case before it reads.)
\<close>

fun property :: "json \<Rightarrow> string \<Rightarrow> json option" where
  "property (JObject kvs) k = map_of kvs k"
| "property _ k = None"

section \<open>The record store\<close>

text \<open>
  An object of class \<open>Order\<close>, with the attributes the handler reads and writes. An
  attribute without a value is \<open>None\<close>; \<open>paidAt\<close> is a point in time.
\<close>

record order =
  order_id :: string
  outTradeNo :: string
  status :: string
  transactionId :: "jsval option"
  paidAt :: "nat option"

text \<open>
  An object of class \<open>_User\<close>. \<open>vipType = None\<close> is an attribute without a value;
  \<open>vipExpireTime = None\<close> is \<open>null\<close>; \<open>vipOrderIds = None\<close> is an attribute without a
  value, which \<open>user.get('vipOrderIds') || []\<close> reads as the empty array.
\<close>

record user =
  vipType :: "json option"
  vipPurchaseTime :: "nat option"
  vipExpireTime :: "nat option"
  vipOrderIds :: "string list option"

record store =
  orders :: "order list"
  users :: "string \<rightharpoonup> user"

text \<open>
  \<open>object.set(attribute, v)\<close> of the storage SDK: the value \<open>undefined\<close> writes
  nothing, and the attribute keeps what it had; every other value is stored. The first
  function is for a field of the request, the second for a field of the attachment,
  where \<open>None\<close> is \<open>undefined\<close>.
\<close>

definition set_attribute :: "jsval \<Rightarrow> jsval option \<Rightarrow> jsval option" where
  "set_attribute v old = (if v = Undefined then old else Some v)"

definition set_json_attribute :: "json option \<Rightarrow> json option \<Rightarrow> json option" where
  "set_json_attribute v old = (case v of None \<Rightarrow> old | Some j \<Rightarrow> Some j)"

text \<open>
  \<open>query.equalTo('outTradeNo', out_trade_no); query.first()\<close>: the position of the first
  order whose \<open>outTradeNo\<close> is the given value, if there is one.
\<close>

fun first_index :: "('a \<Rightarrow> bool) \<Rightarrow> 'a list \<Rightarrow> nat option" where
  "first_index P [] = None"
| "first_index P (x # xs) = (if P x then Some 0 else map_option Suc (first_index P xs))"

definition query_first :: "order list \<Rightarrow> jsval \<Rightarrow> nat option" where
  "query_first os v = first_index (\<lambda>ord. v = Str (outTradeNo ord)) os"

text \<open>
  \<open>userQuery.get(userId)\<close> of the storage SDK: it throws for an identifier that is not
  a string, and its promise rejects for an identifier without a record (no record has
  the empty identifier); otherwise it resolves to the record. It never resolves to a value
  that fails the test \<open>if (user)\<close>, so the \<open>else\<close> branch of that test is not reached:
  for a missing user, control passes from the \<open>await\<close> to the outer \<open>catch\<close>.
\<close>

datatype fetched = Rejects | Resolves string user

definition userQuery_get :: "store \<Rightarrow> json option \<Rightarrow> fetched" where
  "userQuery_get st userId =
     (case userId of
        Some (JString uid) \<Rightarrow>
          (case users st uid of None \<Rightarrow> Rejects | Some u \<Rightarrow> Resolves uid u)
      | _ \<Rightarrow> Rejects)"

section \<open>handlePaymentCallback\<close>

record body =
  out_trade_no :: jsval
  transaction_id :: jsval
  total_fee :: jsval
  attach :: jsval
  sign :: jsval

datatype response = SUCCESS | FAIL

text \<open>
  Step 5 of the handler, on the user that was found.
\<close>

definition grant_vip :: "nat \<Rightarrow> json option \<Rightarrow> string \<Rightarrow> user \<Rightarrow> user" where
  "grant_vip t_vip productType oid u =
     (let u1 = u\<lparr>vipType := set_json_attribute productType (vipType u),
                   vipPurchaseTime := Some t_vip\<rparr>;
          u2 = (if productType = Some (JString ''lifetime'') then u1\<lparr>vipExpireTime := None\<rparr> else u1);
          orderIds = (case vipOrderIds u2 of None \<Rightarrow> [] | Some ids \<Rightarrow> ids)
      in u2\<lparr>vipOrderIds := Some (orderIds @ [oid])\<rparr>)"

text \<open>
  The handler. \<open>md5hex\<close> and \<open>JSON_parse\<close> are the runtime's functions, \<open>key\<close> is
  \<open>YUNGOU_API_KEY\<close>, \<open>t_paid\<close> and \<open>t_vip\<close> are what \<open>new Date()\<close> returns at the two
  places it is called. The result is the text sent and the store afterwards. Two
  exceptions of the body reach the outer \<open>catch\<close>, which sends FAIL: the destructuring
  of \<open>null\<close>, before anything is stored, and the failure of \<open>userQuery.get\<close>, after
  the order has been saved. Reading and saving a record that exists are taken to
  succeed.
\<close>

definition handlePaymentCallback ::
  "(string \<Rightarrow> string) \<Rightarrow> (string \<Rightarrow> json option) \<Rightarrow> string \<Rightarrow> nat \<Rightarrow> nat
     \<Rightarrow> body \<Rightarrow> store \<Rightarrow> response \<times> store" where
  "handlePaymentCallback md5hex JSON_parse key t_paid t_vip b st =
     (let calcSign = calculateSign md5hex
            [(''out_trade_no'', out_trade_no b), (''transaction_id'', transaction_id b),
             (''total_fee'', total_fee b)] key
      in if sign b \<noteq> Str calcSign then (FAIL, st)
         else
          (case JSON_parse (to_string (attach b)) of
             None \<Rightarrow> (FAIL, st)
           | Some attachData \<Rightarrow>
              (if attachData = JNull then (FAIL, st)
               else
                (let userId = property attachData ''userId'';
                     productType = property attachData ''productType''
                 in (case query_first (orders st) (out_trade_no b) of
                       None \<Rightarrow> (FAIL, st)
                     | Some i \<Rightarrow>
                        (let ord = orders st ! i;
                             currentStatus = status ord
                         in if currentStatus = ''paid'' then (SUCCESS, st)
                            else if currentStatus = ''pending'' then
                             (let ord' = ord\<lparr>status := ''paid'',
                                              transactionId :=
                                                set_attribute (transaction_id b) (transactionId ord),
                                              paidAt := Some t_paid\<rparr>;
                                  st1 = st\<lparr>orders := (orders st)[i := ord']\<rparr>
                              in (case userQuery_get st1 userId of
                                    Resolves uid u \<Rightarrow>
                                      (SUCCESS,
                                       st1\<lparr>users := (users st1)(uid \<mapsto>
                                                grant_vip t_vip productType (order_id ord') u)\<rparr>)
                                  | Rejects \<Rightarrow> (FAIL, st1)))
                            else (SUCCESS, st)))))))"

text \<open>
  The signature check of the handler passes: \<open>sign\<close> is the string \<open>calculateSign\<close>
  returns for the three signed fields.
\<close>

definition correctly_signed :: "(string \<Rightarrow> string) \<Rightarrow> string \<Rightarrow> body \<Rightarrow> bool" where
  "correctly_signed md5hex key b \<longleftrightarrow>
     sign b = Str (calculateSign md5hex
       [(''out_trade_no'', out_trade_no b), (''transaction_id'', transaction_id b),
        (''total_fee'', total_fee b)] key)"

text \<open>
  The order after the transition, written out field by field: the identifier and the
  merchant order number stay, the status and the payment time are written, and the
  transaction id is written when the request has one.
\<close>

definition paid_order :: "jsval \<Rightarrow> nat \<Rightarrow> order \<Rightarrow> order" where
  "paid_order tid t ord =
     \<lparr>order_id = order_id ord, outTradeNo = outTradeNo ord, status = ''paid'',
      transactionId = (if tid = Undefined then transactionId ord else Some tid),
      paidAt = Some t\<rparr>"

section \<open>Sequences of deliveries\<close>

text \<open>
  A delivery is one invocation of the handler: the two clock readings and the body.
  \<open>deliver_all\<close> runs the invocations one after the other on the store.
\<close>

type_synonym delivery = "nat \<times> nat \<times> body"

fun deliver ::
  "(string \<Rightarrow> string) \<Rightarrow> (string \<Rightarrow> json option) \<Rightarrow> string \<Rightarrow> delivery \<Rightarrow> store \<Rightarrow> store" where
  "deliver md5hex JSON_parse key (t_paid, t_vip, b) st =
     snd (handlePaymentCallback md5hex JSON_parse key t_paid t_vip b st)"

fun deliver_all ::
  "(string \<Rightarrow> string) \<Rightarrow> (string \<Rightarrow> json option) \<Rightarrow> string \<Rightarrow> delivery list \<Rightarrow> store \<Rightarrow> store" where
  "deliver_all md5hex JSON_parse key [] st = st"
| "deliver_all md5hex JSON_parse key (d # ds) st =
     deliver_all md5hex JSON_parse key ds (deliver md5hex JSON_parse key d st)"

text \<open>
  An attribute is set when it holds a value other than \<open>null\<close> (\<open>object.has\<close> of the
  SDK). The invariant of section 3 of the specification, for one order.
\<close>

definition has_value :: "jsval option \<Rightarrow> bool" where
  "has_value a = (case a of None \<Rightarrow> False | Some v \<Rightarrow> v \<noteq> Null \<and> v \<noteq> Undefined)"

definition consistent :: "order \<Rightarrow> bool" where
  "consistent ord \<longleftrightarrow>
     (has_value (transactionId ord) \<longleftrightarrow> status ord = ''paid'') \<and>
     (paidAt ord \<noteq> None \<longleftrightarrow> status ord = ''paid'')"

text \<open>A delivery whose body has a transaction id, and the transaction ids of a sequence.\<close>

fun carries_transaction_id :: "delivery \<Rightarrow> bool" where
  "carries_transaction_id (t_paid, t_vip, b) \<longleftrightarrow>
     transaction_id b \<noteq> Undefined \<and> transaction_id b \<noteq> Null"

fun delivered_id :: "delivery \<Rightarrow> jsval" where
  "delivered_id (t_paid, t_vip, b) = transaction_id b"

text \<open>
  What one order can look like after deliveries: as before, or paid from pending with
  one of the delivered transaction ids.
\<close>

definition evolves :: "jsval set \<Rightarrow> order \<Rightarrow> order \<Rightarrow> bool" where
  "evolves T ord ord' \<longleftrightarrow>
     ord' = ord \<or> (status ord = ''pending'' \<and> (\<exists>tid \<in> T. \<exists>t. ord' = paid_order tid t ord))"

section \<open>The canonical string in the words of the specification\<close>

text \<open>
  Section 4.1: drop every entry whose value is the empty string, null or absent, sort the
  remaining keys, join them as \<open>key=value\<close> with \<open>&\<close>, append \<open>&key=<secret>\<close>.
\<close>

definition spec_canonical :: "params \<Rightarrow> string \<Rightarrow> string" where
  "spec_canonical params secret =
     (let kept = filter (\<lambda>(k, v). v \<noteq> Str '''' \<and> v \<noteq> Null \<and> v \<noteq> Undefined) params;
          keys = sort (map fst kept)
      in join ''&'' (map (\<lambda>k. k @ ''='' @ to_string (param_at kept k)) keys)
         @ ''&key='' @ secret)"

text \<open>The mapping without its entry under \<open>sign\<close>.\<close>

definition without_sign :: "params \<Rightarrow> params" where
  "without_sign params = filter (\<lambda>(k, v). k \<noteq> ''sign'') params"

section \<open>Example data\<close>

text \<open>
  The values of the two runtime functions at the strings of the examples: MD5 digests in
  lower-case hexadecimal, and the results of \<open>JSON.parse\<close> (\<open>None\<close>: it throws). The
  functions below are these tables; a string outside a table is not used in any example.
\<close>

definition md5hex_table :: "(string \<times> string) list" where
  "md5hex_table =
     [(''out_trade_no=VIP_u1_1&total_fee=6900&transaction_id=tx1&key=s3cr3t'',
       ''33063f2753daa2c7defea5c64c8a05a0''),
      (''out_trade_no=VIP_u1_1&total_fee=6900&key=s3cr3t'',
       ''51b80daa3380b586b89e4176d44a952b'')]"

definition example_md5hex :: "string \<Rightarrow> string" where
  "example_md5hex s = (case map_of md5hex_table s of None \<Rightarrow> [] | Some d \<Rightarrow> d)"

definition JSON_parse_table :: "(string \<times> json option) list" where
  \<open>JSON_parse_table =
     [(''{"userId":"u1","productType":"lifetime"}'',
       Some (JObject [(''userId'', JString ''u1''), (''productType'', JString ''lifetime'')])),
      (''{"userId":"u1"}'', Some (JObject [(''userId'', JString ''u1'')])),
      (''null'', Some JNull),
      (''not json'', None)]\<close>

definition example_JSON_parse :: "string \<Rightarrow> json option" where
  "example_JSON_parse s = (case map_of JSON_parse_table s of None \<Rightarrow> None | Some r \<Rightarrow> r)"

text \<open>
  The end-to-end scenario of section 8: an order for user \<open>u1\<close> in a given status, beside
  an expired order of another user, and the callback for the first order with the correct
  signature under the secret \<open>s3cr3t\<close>.
\<close>

definition example_order :: "string \<Rightarrow> order" where
  "example_order st =
     \<lparr>order_id = ''o1'', outTradeNo = ''VIP_u1_1'', status = st,
      transactionId = None, paidAt = None\<rparr>"

definition example_user :: user where
  "example_user =
     \<lparr>vipType = None, vipPurchaseTime = None, vipExpireTime = Some 5, vipOrderIds = None\<rparr>"

definition expired_order :: order where
  "expired_order =
     \<lparr>order_id = ''o2'', outTradeNo = ''VIP_u2_7'', status = ''expired'',
      transactionId = None, paidAt = None\<rparr>"

definition example_store :: "string \<Rightarrow> store" where
  "example_store st =
     \<lparr>orders = [example_order st, expired_order], users = [''u1'' \<mapsto> example_user]\<rparr>"

text \<open>The store of the scenario after the callback was delivered at the times 100 and 101.\<close>

definition example_paid_store :: store where
  "example_paid_store =
     \<lparr>orders = [\<lparr>order_id = ''o1'', outTradeNo = ''VIP_u1_1'', status = ''paid'',
                  transactionId = Some (Str ''tx1''), paidAt = Some 100\<rparr>, expired_order],
      users = [''u1'' \<mapsto> \<lparr>vipType = Some (JString ''lifetime''), vipPurchaseTime = Some 101,
                           vipExpireTime = None, vipOrderIds = Some [''o1'']\<rparr>]\<rparr>"

definition example_body :: "string \<Rightarrow> body" where
  "example_body att =
     \<lparr>out_trade_no = Str ''VIP_u1_1'', transaction_id = Str ''tx1'', total_fee = Str ''6900'',
      attach = Str att, sign = Str ''33063F2753DAA2C7DEFEA5C64C8A05A0''\<rparr>"

definition userId_only_attach :: string where
  \<open>userId_only_attach = ''{"userId":"u1"}''\<close>

definition lifetime_attach :: string where
  \<open>lifetime_attach = ''{"userId":"u1","productType":"lifetime"}''\<close>

text \<open>
  The callback of the scenario without a transaction id, with the signature that is
  correct for it; and a user who has an entitlement already.
\<close>

definition body_without_transaction_id :: body where
  "body_without_transaction_id =
     \<lparr>out_trade_no = Str ''VIP_u1_1'', transaction_id = Undefined, total_fee = Str ''6900'',
      attach = Str lifetime_attach, sign = Str ''51B80DAA3380B586B89E4176D44A952B''\<rparr>"

definition monthly_user :: user where
  "monthly_user =
     \<lparr>vipType = Some (JString ''monthly''), vipPurchaseTime = Some 7, vipExpireTime = Some 9,
      vipOrderIds = Some [''o0'']\<rparr>"

section \<open>Lemmas about the signing string\<close>

lemma map_of_filter_key:
  "P k \<Longrightarrow> map_of (filter (\<lambda>(k, v). P k) ps) k = map_of ps k"
  by (induction ps) auto

lemma param_at_without_sign:
  "k \<noteq> ''sign'' \<Longrightarrow> param_at (without_sign ps) k = param_at ps k"
  by (simp add: param_at_def without_sign_def map_of_filter_key)

lemma keys_without_sign:
  "map fst (without_sign ps) = filter (\<lambda>k. k \<noteq> ''sign'') (map fst ps)"
  by (induction ps) (auto simp: without_sign_def)

lemma signStr_without_sign: "signStr (without_sign ps) = signStr ps"
proof -
  let ?keep = "\<lambda>qs k. k \<noteq> ''sign'' \<and> param_at qs k \<noteq> Str '''' \<and> param_at qs k \<noteq> Null
                  \<and> param_at qs k \<noteq> Undefined"
  let ?pair = "\<lambda>qs k. k @ ''='' @ to_string (param_at qs k)"
  have "sort (map fst (without_sign ps)) = filter (\<lambda>k. k \<noteq> ''sign'') (sort (map fst ps))"
    by (simp only: keys_without_sign filter_sort)
  then have keys: "filter (?keep (without_sign ps)) (sort (map fst (without_sign ps)))
              = filter (?keep ps) (sort (map fst ps))"
    by (auto simp: param_at_without_sign intro!: filter_cong)
  have pairs: "map (?pair (without_sign ps)) (filter (?keep ps) (sort (map fst ps)))
        = map (?pair ps) (filter (?keep ps) (sort (map fst ps)))"
    by (rule map_cong) (auto simp: param_at_without_sign)
  show ?thesis
    unfolding signStr_def Let_def keys pairs ..
qed

lemma sorted_keys_eq:
  assumes "distinct (map fst ps)" "distinct (map fst qs)" "set ps = set qs"
  shows "sort (map fst ps) = sort (map fst qs)"
proof (rule sorted_distinct_set_unique)
  show "set (sort (map fst ps)) = set (sort (map fst qs))"
    using assms(3) by simp
qed (use assms in simp_all)

lemma param_at_eq:
  assumes "distinct (map fst ps)" "distinct (map fst qs)" "set ps = set qs"
  shows "param_at ps = param_at qs"
proof -
  have "map_of ps = map_of qs"
    using assms by (simp add: map_of_inject_set)
  then show ?thesis
    by (simp add: param_at_def fun_eq_iff)
qed

lemma keys_filter_values:
  "distinct (map fst ps) \<Longrightarrow>
   map fst (filter (\<lambda>(k, v). Q k v) ps) = filter (\<lambda>k. Q k (param_at ps k)) (map fst ps)"
proof (induction ps)
  case Nil
  then show ?case by simp
next
  case (Cons p ps)
  obtain k v where p: "p = (k, v)" by (cases p)
  have hd: "param_at ((k, v) # ps) k = v"
    by (simp add: param_at_def)
  have tl: "filter (\<lambda>k'. Q k' (param_at ((k, v) # ps) k')) (map fst ps)
            = filter (\<lambda>k'. Q k' (param_at ps k')) (map fst ps)"
    using Cons.prems by (intro filter_cong) (auto simp: p param_at_def)
  have IH: "map fst (filter (\<lambda>(k, v). Q k v) ps) = filter (\<lambda>k. Q k (param_at ps k)) (map fst ps)"
    using Cons by simp
  show ?case
    unfolding p by (simp add: hd tl IH)
qed

lemma map_of_filter_values:
  "map_of ps k = Some v \<Longrightarrow> Q k v \<Longrightarrow> map_of (filter (\<lambda>(k, v). Q k v) ps) k = Some v"
  by (induction ps) (auto split: if_splits)

lemma param_at_filter_values:
  assumes "Q k (param_at ps k)" and "k \<in> fst ` set ps"
  shows "param_at (filter (\<lambda>(k, v). Q k v) ps) k = param_at ps k"
proof -
  from assms(2) obtain v where v: "map_of ps k = Some v"
    by (cases "map_of ps k") (auto simp: map_of_eq_None_iff)
  with assms(1) have "Q k v"
    by (simp add: param_at_def)
  with v show ?thesis
    by (simp add: param_at_def map_of_filter_values)
qed

lemma fullStr_spec_canonical:
  assumes "distinct (map fst ps)"
  shows "fullStr ps key = spec_canonical (without_sign ps) key"
proof -
  let ?Q = "\<lambda>k v. k \<noteq> ''sign'' \<and> v \<noteq> Str '''' \<and> v \<noteq> Null \<and> v \<noteq> Undefined"
  let ?kept = "filter (\<lambda>(k, v). ?Q k v) ps"
  let ?keys = "filter (\<lambda>k. ?Q k (param_at ps k)) (sort (map fst ps))"
  have kept: "filter (\<lambda>(k, v). v \<noteq> Str '''' \<and> v \<noteq> Null \<and> v \<noteq> Undefined) (without_sign ps) = ?kept"
    unfolding without_sign_def filter_filter by (rule filter_cong) auto
  have keys: "sort (map fst ?kept) = ?keys"
    by (simp only: keys_filter_values [OF assms, of ?Q] filter_sort)
  have pairs: "map (\<lambda>k. k @ ''='' @ to_string (param_at ?kept k)) ?keys
             = map (\<lambda>k. k @ ''='' @ to_string (param_at ps k)) ?keys"
    by (rule map_cong) (auto simp: param_at_filter_values [of ?Q])
  show ?thesis
    unfolding fullStr_def signStr_def spec_canonical_def Let_def kept keys pairs ..
qed

lemma upper_char_hex_all:
  "\<forall>c \<in> set ''0123456789abcdef''. upper_char c \<in> set ''0123456789ABCDEF''"
  by (simp add: upper_char_def)

lemma toUpperCase_hex:
  assumes "set s \<subseteq> set ''0123456789abcdef''"
  shows "set (toUpperCase s) \<subseteq> set ''0123456789ABCDEF''"
proof
  fix c assume "c \<in> set (toUpperCase s)"
  then obtain d where d: "d \<in> set s" "c = upper_char d"
    by (auto simp only: toUpperCase_def set_map)
  from assms d(1) have "d \<in> set ''0123456789abcdef''" by (rule subsetD)
  then have "upper_char d \<in> set ''0123456789ABCDEF''"
    by (rule upper_char_hex_all [rule_format])
  then show "c \<in> set ''0123456789ABCDEF''"
    by (simp only: d(2))
qed

lemma without_sign_id: "''sign'' \<notin> fst ` set ps \<Longrightarrow> without_sign ps = ps"
  unfolding without_sign_def by (rule filter_True) force

lemma without_sign_insert:
  "without_sign (xs @ (''sign'', v) # ys) = without_sign (xs @ ys)"
  by (simp add: without_sign_def)

section \<open>Lemmas about the handler\<close>

lemma first_index_Some:
  "first_index P xs = Some i \<Longrightarrow> i < length xs \<and> P (xs ! i)"
proof (induction xs arbitrary: i)
  case Nil
  then show ?case by simp
next
  case (Cons x xs)
  then show ?case by (cases "P x") (auto simp: nth_Cons')
qed

lemma first_index_None: "first_index P xs = None \<longleftrightarrow> (\<forall>x\<in>set xs. \<not> P x)"
  by (induction xs) auto

lemma first_index_update:
  "i < length xs \<Longrightarrow> P y = P (xs ! i) \<Longrightarrow> first_index P (xs[i := y]) = first_index P xs"
proof (induction xs arbitrary: i)
  case Nil
  then show ?case by simp
next
  case (Cons x xs)
  then show ?case by (cases i) auto
qed

lemma query_first_Some:
  "query_first os v = Some i \<Longrightarrow> i < length os \<and> v = Str (outTradeNo (os ! i))"
  unfolding query_first_def by (rule first_index_Some)

lemma query_first_update:
  "i < length os \<Longrightarrow> outTradeNo ord = outTradeNo (os ! i) \<Longrightarrow>
   query_first (os[i := ord]) v = query_first os v"
  unfolding query_first_def by (rule first_index_update) simp_all

text \<open>The handler once the signature check has passed.\<close>

lemma handle_bad_sign:
  "\<not> correctly_signed md5hex key b \<Longrightarrow>
   handlePaymentCallback md5hex JSON_parse key t_paid t_vip b st = (FAIL, st)"
  by (simp add: handlePaymentCallback_def correctly_signed_def Let_def)

lemma handle_no_order:
  "query_first (orders st) (out_trade_no b) = None \<Longrightarrow>
   handlePaymentCallback md5hex JSON_parse key t_paid t_vip b st = (FAIL, st)"
  by (simp add: handlePaymentCallback_def Let_def split: option.splits)

lemma userQuery_get_orders [simp]:
  "userQuery_get (st\<lparr>orders := os\<rparr>) v = userQuery_get st v"
  by (simp add: userQuery_get_def split: option.splits json.splits)

lemma handle_found:
  assumes "correctly_signed md5hex key b"
    and "JSON_parse (to_string (attach b)) = Some a" and "a \<noteq> JNull"
    and "query_first (orders st) (out_trade_no b) = Some i"
  shows "handlePaymentCallback md5hex JSON_parse key t_paid t_vip b st =
     (if status (orders st ! i) = ''paid'' then (SUCCESS, st)
      else if status (orders st ! i) = ''pending'' then
        (case userQuery_get st (property a ''userId'') of
           Resolves uid u \<Rightarrow>
             (SUCCESS,
              st\<lparr>orders := (orders st)[i := (orders st ! i)\<lparr>status := ''paid'',
                     transactionId := set_attribute (transaction_id b) (transactionId (orders st ! i)),
                     paidAt := Some t_paid\<rparr>],
                 users := (users st)(uid \<mapsto>
                   grant_vip t_vip (property a ''productType'') (order_id (orders st ! i)) u)\<rparr>)
         | Rejects \<Rightarrow>
             (FAIL,
              st\<lparr>orders := (orders st)[i := (orders st ! i)\<lparr>status := ''paid'',
                     transactionId := set_attribute (transaction_id b) (transactionId (orders st ! i)),
                     paidAt := Some t_paid\<rparr>]\<rparr>))
      else (SUCCESS, st))"
  using assms
  by (simp add: handlePaymentCallback_def correctly_signed_def Let_def split: fetched.splits)

lemma paid_order_eq:
  "ord\<lparr>status := ''paid'', transactionId := set_attribute tid (transactionId ord),
       paidAt := Some t\<rparr> = paid_order tid t ord"
  by (cases ord) (simp add: paid_order_def set_attribute_def)

lemma store_orders_eq: "st\<lparr>orders := os\<rparr> = \<lparr>orders = os, users = users st\<rparr>"
  by (cases st) simp

lemma store_orders_users_eq: "st\<lparr>orders := os, users := us\<rparr> = \<lparr>orders = os, users = us\<rparr>"
  by (cases st) simp

lemma handle_pending_user:
  assumes "correctly_signed md5hex key b"
    and "JSON_parse (to_string (attach b)) = Some a"
    and "property a ''userId'' = Some (JString uid)"
    and "users st uid = Some u"
    and "query_first (orders st) (out_trade_no b) = Some i"
    and "status (orders st ! i) = ''pending''"
  shows "handlePaymentCallback md5hex JSON_parse key t_paid t_vip b st =
     (SUCCESS,
      \<lparr>orders = (orders st)[i := paid_order (transaction_id b) t_paid (orders st ! i)],
       users = (users st)(uid \<mapsto>
                 grant_vip t_vip (property a ''productType'') (order_id (orders st ! i)) u)\<rparr>)"
proof -
  from assms(3) have "a \<noteq> JNull" by auto
  from handle_found [where JSON_parse = JSON_parse, OF assms(1,2) this assms(5)] assms(3,4,6)
  show ?thesis
    by (simp add: userQuery_get_def paid_order_eq store_orders_users_eq)
qed

lemma handle_pending_missing_user:
  assumes "correctly_signed md5hex key b"
    and "JSON_parse (to_string (attach b)) = Some a"
    and "property a ''userId'' = Some (JString uid)"
    and "users st uid = None"
    and "query_first (orders st) (out_trade_no b) = Some i"
    and "status (orders st ! i) = ''pending''"
  shows "handlePaymentCallback md5hex JSON_parse key t_paid t_vip b st =
     (FAIL,
      \<lparr>orders = (orders st)[i := paid_order (transaction_id b) t_paid (orders st ! i)],
       users = users st\<rparr>)"
proof -
  from assms(3) have "a \<noteq> JNull" by auto
  from handle_found [where JSON_parse = JSON_parse, OF assms(1,2) this assms(5)] assms(3,4,6)
  show ?thesis
    by (simp add: userQuery_get_def paid_order_eq store_orders_eq)
qed

lemma handle_paid:
  assumes "correctly_signed md5hex key b"
    and "JSON_parse (to_string (attach b)) = Some a" and "a \<noteq> JNull"
    and "query_first (orders st) (out_trade_no b) = Some i"
    and "status (orders st ! i) = ''paid''"
  shows "handlePaymentCallback md5hex JSON_parse key t_paid t_vip b st = (SUCCESS, st)"
  using assms(5) by (simp add: handle_found [where JSON_parse = JSON_parse, OF assms(1-4)])

lemma grant_vip_fields:
  "grant_vip t_vip productType oid u =
     \<lparr>vipType = (case productType of None \<Rightarrow> vipType u | Some p \<Rightarrow> Some p),
      vipPurchaseTime = Some t_vip,
      vipExpireTime = (if productType = Some (JString ''lifetime'') then None else vipExpireTime u),
      vipOrderIds = Some ((case vipOrderIds u of None \<Rightarrow> [] | Some ids \<Rightarrow> ids) @ [oid])\<rparr>"
  by (cases u) (auto simp: grant_vip_def set_json_attribute_def Let_def split: option.splits)

lemma users_changed:
  assumes "users (snd (handlePaymentCallback md5hex JSON_parse key t_paid t_vip b st)) \<noteq> users st"
  shows "correctly_signed md5hex key b \<and>
        (\<exists>a i uid u. JSON_parse (to_string (attach b)) = Some a \<and>
           query_first (orders st) (out_trade_no b) = Some i \<and>
           status (orders st ! i) = ''pending'' \<and>
           property a ''userId'' = Some (JString uid) \<and> users st uid = Some u)"
  using assms
  unfolding handlePaymentCallback_def correctly_signed_def Let_def userQuery_get_def
  by (auto split: option.splits if_splits json.splits)

lemma evolves_refl: "evolves T ord ord"
  by (simp add: evolves_def)

lemma evolves_mono: "evolves T a b \<Longrightarrow> T \<subseteq> T' \<Longrightarrow> evolves T' a b"
  unfolding evolves_def by blast

lemma evolves_trans: "evolves T a b \<Longrightarrow> evolves T b c \<Longrightarrow> evolves T a c"
  by (auto simp: evolves_def paid_order_def)

lemma handle_orders:
  "orders (snd (handlePaymentCallback md5hex JSON_parse key t_paid t_vip b st)) = orders st \<or>
   (\<exists>i. i < length (orders st) \<and> status (orders st ! i) = ''pending'' \<and>
        orders (snd (handlePaymentCallback md5hex JSON_parse key t_paid t_vip b st))
        = (orders st)[i := paid_order (transaction_id b) t_paid (orders st ! i)])"
proof (cases "query_first (orders st) (out_trade_no b)")
  case None
  then show ?thesis by (simp add: handle_no_order)
next
  case (Some i)
  then have "i < length (orders st)"
    using query_first_Some by blast
  with Some show ?thesis
    unfolding handlePaymentCallback_def Let_def
    by (auto simp: paid_order_eq split: option.splits fetched.splits)
qed

lemma deliver_evolves:
  "length (orders (deliver md5hex JSON_parse key d st)) = length (orders st) \<and>
   (\<forall>i < length (orders st).
      evolves {delivered_id d} (orders st ! i) (orders (deliver md5hex JSON_parse key d st) ! i))"
proof -
  obtain t_paid t_vip b where d: "d = (t_paid, t_vip, b)"
    by (cases d)
  let ?os' = "orders (snd (handlePaymentCallback md5hex JSON_parse key t_paid t_vip b st))"
  from handle_orders [of md5hex JSON_parse key t_paid t_vip b st]
  consider "?os' = orders st"
    | i where "i < length (orders st)" "status (orders st ! i) = ''pending''"
        "?os' = (orders st)[i := paid_order (transaction_id b) t_paid (orders st ! i)]"
    by blast
  then have "length ?os' = length (orders st) \<and>
      (\<forall>j < length (orders st). evolves {transaction_id b} (orders st ! j) (?os' ! j))"
  proof cases
    case 1
    then show ?thesis by (simp add: evolves_refl)
  next
    case 2
    have "evolves {transaction_id b} (orders st ! j)
            ((orders st)[i := paid_order (transaction_id b) t_paid (orders st ! i)] ! j)"
      if "j < length (orders st)" for j
    proof (cases "j = i")
      case True
      with 2(1,2) show ?thesis
        unfolding evolves_def by (simp only: nth_list_update_eq) blast
    next
      case False
      then show ?thesis by (simp add: evolves_refl)
    qed
    with 2(3) show ?thesis by simp
  qed
  then show ?thesis by (simp add: d)
qed

lemma deliver_all_evolves:
  "length (orders (deliver_all md5hex JSON_parse key ds st)) = length (orders st) \<and>
   (\<forall>i < length (orders st).
      evolves (delivered_id ` set ds) (orders st ! i)
        (orders (deliver_all md5hex JSON_parse key ds st) ! i))"
proof (induction ds arbitrary: st)
  case Nil
  then show ?case by (simp add: evolves_refl)
next
  case (Cons d ds)
  let ?st1 = "deliver md5hex JSON_parse key d st"
  let ?T = "delivered_id ` set (d # ds)"
  have len1: "length (orders ?st1) = length (orders st)"
    and ev1: "\<And>i. i < length (orders st) \<Longrightarrow>
                evolves {delivered_id d} (orders st ! i) (orders ?st1 ! i)"
    using deliver_evolves [of md5hex JSON_parse key d st] by auto
  have len2: "length (orders (deliver_all md5hex JSON_parse key ds ?st1)) = length (orders ?st1)"
    and ev2: "\<And>i. i < length (orders ?st1) \<Longrightarrow>
                evolves (delivered_id ` set ds) (orders ?st1 ! i)
                  (orders (deliver_all md5hex JSON_parse key ds ?st1) ! i)"
    using Cons.IH [of ?st1] by auto
  have "evolves ?T (orders st ! i) (orders (deliver_all md5hex JSON_parse key ds ?st1) ! i)"
    if "i < length (orders st)" for i
  proof -
    have "evolves ?T (orders st ! i) (orders ?st1 ! i)"
      by (rule evolves_mono [OF ev1 [OF that]]) simp
    moreover have "evolves ?T (orders ?st1 ! i)
                     (orders (deliver_all md5hex JSON_parse key ds ?st1) ! i)"
      by (rule evolves_mono [OF ev2]) (use that len1 in auto)
    ultimately show ?thesis
      by (rule evolves_trans)
  qed
  with len1 len2 show ?case
    by simp
qed

section \<open>The example scenario\<close>

lemma example_fullStr:
  "fullStr [(''out_trade_no'', Str ''VIP_u1_1''), (''transaction_id'', Str ''tx1''),
            (''total_fee'', Str ''6900'')] ''s3cr3t''
   = ''out_trade_no=VIP_u1_1&total_fee=6900&transaction_id=tx1&key=s3cr3t''"
  by (simp add: fullStr_def signStr_def param_at_def)

lemma example_calculateSign:
  "calculateSign example_md5hex
     [(''out_trade_no'', Str ''VIP_u1_1''), (''transaction_id'', Str ''tx1''),
      (''total_fee'', Str ''6900'')] ''s3cr3t''
   = ''33063F2753DAA2C7DEFEA5C64C8A05A0''"
  unfolding calculateSign_def example_fullStr
  by (simp add: example_md5hex_def md5hex_table_def toUpperCase_def upper_char_def)

lemma example_signed: "correctly_signed example_md5hex ''s3cr3t'' (example_body att)"
  unfolding correctly_signed_def
  by (simp add: example_body_def example_calculateSign)

lemma example_parse:
  "example_JSON_parse (to_string (attach (example_body lifetime_attach)))
   = Some (JObject [(''userId'', JString ''u1''), (''productType'', JString ''lifetime'')])"
  by (simp add: example_body_def lifetime_attach_def example_JSON_parse_def JSON_parse_table_def)

lemma example_query:
  "query_first (orders (example_store s)) (out_trade_no (example_body att)) = Some 0"
  by (simp add: query_first_def example_store_def example_order_def example_body_def)

lemma example_orders: "orders (example_store s) = [example_order s, expired_order]"
  by (simp add: example_store_def)

lemma example_users: "users (example_store s) = [''u1'' \<mapsto> example_user]"
  by (simp add: example_store_def)

lemma example_status: "status (orders (example_store s) ! 0) = s"
  by (simp add: example_store_def example_order_def)

lemma example_transaction_id: "transaction_id (example_body att) = Str ''tx1''"
  by (simp add: example_body_def)

lemma example_first_delivery:
  "handlePaymentCallback example_md5hex example_JSON_parse ''s3cr3t'' 100 101
     (example_body lifetime_attach) (example_store ''pending'') = (SUCCESS, example_paid_store)"
proof -
  have p: "property (JObject [(''userId'', JString ''u1''), (''productType'', JString ''lifetime'')])
             ''userId'' = Some (JString ''u1'')"
    by simp
  have u: "users (example_store ''pending'') ''u1'' = Some example_user"
    by (simp add: example_users)
  show ?thesis
    by (simp add: handle_pending_user [where JSON_parse = example_JSON_parse,
            OF example_signed example_parse p u example_query example_status]
          example_orders example_users example_transaction_id grant_vip_fields
          example_user_def example_order_def example_paid_store_def paid_order_def)
qed

lemma example_second_delivery:
  "handlePaymentCallback example_md5hex example_JSON_parse ''s3cr3t'' t_paid t_vip
     (example_body lifetime_attach) example_paid_store = (SUCCESS, example_paid_store)"
proof -
  have q: "query_first (orders example_paid_store) (out_trade_no (example_body lifetime_attach))
           = Some 0"
    by (simp add: query_first_def example_paid_store_def example_body_def)
  have s: "status (orders example_paid_store ! 0) = ''paid''"
    by (simp add: example_paid_store_def)
  show ?thesis
    by (rule handle_paid [where JSON_parse = example_JSON_parse,
          OF example_signed example_parse _ q s]) simp
qed

section \<open>Claims about calculateSign\<close>

text \<open>
  C4: on a parameter mapping without a signature field (the input section 4.1 of the
  specification describes), \<open>calculateSign\<close> drops every entry whose value is the empty
  string, null or absent, sorts the remaining keys, joins them as \<open>key=value\<close> with
  \<open>&\<close>, appends \<open>&key=<secret>\<close>, hashes the result and returns the digest in upper
  case: as long as the digest, and made of the digits 0-9 and A-F when the digest is
  hexadecimal.
\<close>

theorem calculateSign_canonical:
  assumes "distinct (map fst params)" and "''sign'' \<notin> fst ` set params"
  shows "calculateSign md5hex params key = toUpperCase (md5hex (spec_canonical params key)) \<and>
         length (calculateSign md5hex params key) = length (md5hex (spec_canonical params key)) \<and>
         (set (md5hex (spec_canonical params key)) \<subseteq> set ''0123456789abcdef'' \<longrightarrow>
          set (calculateSign md5hex params key) \<subseteq> set ''0123456789ABCDEF'')"
proof -
  have eq: "calculateSign md5hex params key = toUpperCase (md5hex (spec_canonical params key))"
    using fullStr_spec_canonical [OF assms(1), of key] without_sign_id [OF assms(2)]
    by (simp add: calculateSign_def)
  have len: "length (toUpperCase (md5hex (spec_canonical params key)))
             = length (md5hex (spec_canonical params key))"
    by (simp add: toUpperCase_def)
  show ?thesis
  proof (intro conjI impI)
    show "calculateSign md5hex params key = toUpperCase (md5hex (spec_canonical params key))"
      by (rule eq)
    show "length (calculateSign md5hex params key) = length (md5hex (spec_canonical params key))"
      unfolding eq by (rule len)
    assume "set (md5hex (spec_canonical params key)) \<subseteq> set ''0123456789abcdef''"
    then show "set (calculateSign md5hex params key) \<subseteq> set ''0123456789ABCDEF''"
      unfolding eq by (rule toUpperCase_hex)
  qed
qed

text \<open>
  The theorem on a mapping in another order than the sorted one, with an empty value:
  the canonical string and the signature of the scenario.
\<close>

theorem calculateSign_canonical_witness:
  "distinct (map fst [(''total_fee'', Str ''6900''), (''transaction_id'', Str ''tx1''),
                      (''attach'', Str ''''), (''out_trade_no'', Str ''VIP_u1_1'')]) \<and>
   ''sign'' \<notin> fst ` set [(''total_fee'', Str ''6900''), (''transaction_id'', Str ''tx1''),
                      (''attach'', Str ''''), (''out_trade_no'', Str ''VIP_u1_1'')] \<and>
   spec_canonical [(''total_fee'', Str ''6900''), (''transaction_id'', Str ''tx1''),
                   (''attach'', Str ''''), (''out_trade_no'', Str ''VIP_u1_1'')] ''s3cr3t''
     = ''out_trade_no=VIP_u1_1&total_fee=6900&transaction_id=tx1&key=s3cr3t'' \<and>
   calculateSign example_md5hex
     [(''total_fee'', Str ''6900''), (''transaction_id'', Str ''tx1''),
      (''attach'', Str ''''), (''out_trade_no'', Str ''VIP_u1_1'')] ''s3cr3t''
     = ''33063F2753DAA2C7DEFEA5C64C8A05A0''"
proof -
  let ?ps = "[(''total_fee'', Str ''6900''), (''transaction_id'', Str ''tx1''),
              (''attach'', Str ''''), (''out_trade_no'', Str ''VIP_u1_1'')]"
  have d: "distinct (map fst ?ps)" by simp
  have n: "''sign'' \<notin> fst ` set ?ps" by simp
  have c: "spec_canonical ?ps ''s3cr3t''
           = ''out_trade_no=VIP_u1_1&total_fee=6900&transaction_id=tx1&key=s3cr3t''"
    by (simp add: spec_canonical_def param_at_def)
  from calculateSign_canonical [OF d n, of example_md5hex "''s3cr3t''"]
  have "calculateSign example_md5hex ?ps ''s3cr3t''
        = toUpperCase (example_md5hex (spec_canonical ?ps ''s3cr3t''))"
    by (rule conjunct1)
  also have "\<dots> = ''33063F2753DAA2C7DEFEA5C64C8A05A0''"
    unfolding c by (simp add: example_md5hex_def md5hex_table_def toUpperCase_def upper_char_def)
  finally have e:
    "calculateSign example_md5hex ?ps ''s3cr3t'' = ''33063F2753DAA2C7DEFEA5C64C8A05A0''" .
  show ?thesis
    by (intro conjI d n c e)
qed

text \<open>
  C9: two parameter mappings with the same entries, inserted in different orders, have
  the same signature under every secret.
\<close>

theorem calculateSign_order_independent:
  assumes "distinct (map fst ps)" and "distinct (map fst qs)" and "set ps = set qs"
  shows "calculateSign md5hex ps key = calculateSign md5hex qs key"
proof -
  have "sort (map fst ps) = sort (map fst qs)"
    by (rule sorted_keys_eq [OF assms])
  moreover have "param_at ps = param_at qs"
    by (rule param_at_eq [OF assms])
  ultimately have "signStr ps = signStr qs"
    by (simp add: signStr_def)
  then show ?thesis
    by (simp add: calculateSign_def fullStr_def)
qed

text \<open>The three signed fields of the scenario, in two orders.\<close>

theorem calculateSign_order_independent_witness:
  "calculateSign example_md5hex
     [(''total_fee'', Str ''6900''), (''transaction_id'', Str ''tx1''),
      (''out_trade_no'', Str ''VIP_u1_1'')] ''s3cr3t''
   = calculateSign example_md5hex
     [(''out_trade_no'', Str ''VIP_u1_1''), (''transaction_id'', Str ''tx1''),
      (''total_fee'', Str ''6900'')] ''s3cr3t'' \<and>
   calculateSign example_md5hex
     [(''total_fee'', Str ''6900''), (''transaction_id'', Str ''tx1''),
      (''out_trade_no'', Str ''VIP_u1_1'')] ''s3cr3t''
   = ''33063F2753DAA2C7DEFEA5C64C8A05A0''"
proof -
  let ?ps = "[(''total_fee'', Str ''6900''), (''transaction_id'', Str ''tx1''),
              (''out_trade_no'', Str ''VIP_u1_1'')]"
  let ?qs = "[(''out_trade_no'', Str ''VIP_u1_1''), (''transaction_id'', Str ''tx1''),
              (''total_fee'', Str ''6900'')]"
  have d1: "distinct (map fst ?ps)" by simp
  have d2: "distinct (map fst ?qs)" by simp
  have s: "set ?ps = set ?qs" by auto
  have "calculateSign example_md5hex ?ps ''s3cr3t'' = calculateSign example_md5hex ?qs ''s3cr3t''"
    by (rule calculateSign_order_independent [OF d1 d2 s])
  then show ?thesis
    by (simp only: example_calculateSign)
qed

text \<open>
  C10: the signature is the same whether or not the mapping has an entry under
  \<open>sign\<close>: removing the entry, or inserting one with any value at any place, leaves
  the result as it is.
\<close>

theorem calculateSign_ignores_sign:
  "calculateSign md5hex (without_sign params) key = calculateSign md5hex params key \<and>
   calculateSign md5hex (xs @ (''sign'', v) # ys) key = calculateSign md5hex (xs @ ys) key"
proof -
  have "signStr (xs @ (''sign'', v) # ys) = signStr (xs @ ys)"
    using signStr_without_sign [of "xs @ (''sign'', v) # ys"] signStr_without_sign [of "xs @ ys"]
    by (simp add: without_sign_insert)
  then show ?thesis
    by (simp add: calculateSign_def fullStr_def signStr_without_sign)
qed

text \<open>The signed fields of the scenario with the signature itself among them.\<close>

theorem calculateSign_ignores_sign_witness:
  "calculateSign example_md5hex
     [(''out_trade_no'', Str ''VIP_u1_1''), (''sign'', Str ''33063F2753DAA2C7DEFEA5C64C8A05A0''),
      (''transaction_id'', Str ''tx1''), (''total_fee'', Str ''6900'')] ''s3cr3t''
   = ''33063F2753DAA2C7DEFEA5C64C8A05A0''"
proof -
  from calculateSign_ignores_sign
    [where md5hex = example_md5hex and key = "''s3cr3t''"
       and xs = "[(''out_trade_no'', Str ''VIP_u1_1'')]"
       and v = "Str ''33063F2753DAA2C7DEFEA5C64C8A05A0''"
       and ys = "[(''transaction_id'', Str ''tx1''), (''total_fee'', Str ''6900'')]"]
  have "calculateSign example_md5hex
          ([(''out_trade_no'', Str ''VIP_u1_1'')]
           @ (''sign'', Str ''33063F2753DAA2C7DEFEA5C64C8A05A0'')
           # [(''transaction_id'', Str ''tx1''), (''total_fee'', Str ''6900'')]) ''s3cr3t''
        = calculateSign example_md5hex
          ([(''out_trade_no'', Str ''VIP_u1_1'')]
           @ [(''transaction_id'', Str ''tx1''), (''total_fee'', Str ''6900'')]) ''s3cr3t''"
    by (rule conjunct2)
  then show ?thesis
    by (simp only: append.simps example_calculateSign)
qed

section \<open>Claims about handlePaymentCallback\<close>

text \<open>
  C1, as the handler has it: for a stored order whose status is \<open>cancelled\<close> or
  \<open>expired\<close>, a correctly signed callback with an attachment that parses (to anything
  but \<open>null\<close>) and with the order's merchant order number is answered with SUCCESS, and
  the store stays as it is.
\<close>

theorem terminal_order_acknowledged:
  assumes "correctly_signed md5hex key b"
    and "JSON_parse (to_string (attach b)) = Some a" and "a \<noteq> JNull"
    and "query_first (orders st) (out_trade_no b) = Some i"
    and "status (orders st ! i) = ''cancelled'' \<or> status (orders st ! i) = ''expired''"
  shows "handlePaymentCallback md5hex JSON_parse key t_paid t_vip b st = (SUCCESS, st)"
  using assms(5) by (auto simp: handle_found [where JSON_parse = JSON_parse, OF assms(1-4)])

text \<open>The scenario with the order expired.\<close>

theorem terminal_order_acknowledged_witness:
  "handlePaymentCallback example_md5hex example_JSON_parse ''s3cr3t'' 100 101
     (example_body lifetime_attach) (example_store ''expired'')
   = (SUCCESS, example_store ''expired'')"
  by (rule terminal_order_acknowledged
       [where JSON_parse = example_JSON_parse, OF example_signed example_parse _ example_query])
     (simp_all add: example_status)

text \<open>
  C1 as it is stated fails: the scenario with the order cancelled meets every condition
  of the claim, and the handler does not answer FAIL.
\<close>

theorem cancelled_order_not_rejected:
  "correctly_signed example_md5hex ''s3cr3t'' (example_body lifetime_attach) \<and>
   example_JSON_parse (to_string (attach (example_body lifetime_attach)))
     = Some (JObject [(''userId'', JString ''u1''), (''productType'', JString ''lifetime'')]) \<and>
   query_first (orders (example_store ''cancelled'')) (out_trade_no (example_body lifetime_attach))
     = Some 0 \<and>
   status (orders (example_store ''cancelled'') ! 0) = ''cancelled'' \<and>
   fst (handlePaymentCallback example_md5hex example_JSON_parse ''s3cr3t'' 100 101
          (example_body lifetime_attach) (example_store ''cancelled'')) = SUCCESS"
  by (simp add: example_signed example_parse example_query example_status
        handle_found [where JSON_parse = example_JSON_parse,
          OF example_signed example_parse _ example_query])

text \<open>
  C2: for a pending order, two deliveries of the same valid callback (correct signature,
  attachment with the identifier of an existing user) both answer SUCCESS; the second
  leaves the store as the first left it, so that after both the order list differs from
  the original one by the single transition of the matched order, written with the clock
  of the first delivery, and the user's \<open>vipOrderIds\<close> is the old sequence with the
  order's id appended once.
\<close>

theorem duplicate_delivery_idempotent:
  assumes "correctly_signed md5hex key b"
    and "JSON_parse (to_string (attach b)) = Some a"
    and "property a ''userId'' = Some (JString uid)"
    and "users st uid = Some u"
    and "query_first (orders st) (out_trade_no b) = Some i"
    and "status (orders st ! i) = ''pending''"
  shows "let r1 = handlePaymentCallback md5hex JSON_parse key t1 t2 b st;
             r2 = handlePaymentCallback md5hex JSON_parse key t3 t4 b (snd r1)
         in fst r1 = SUCCESS \<and> fst r2 = SUCCESS \<and> snd r2 = snd r1 \<and>
            orders (snd r2) = (orders st)[i := paid_order (transaction_id b) t1 (orders st ! i)] \<and>
            status (orders (snd r2) ! i) = ''paid'' \<and>
            map_option vipOrderIds (users (snd r2) uid) =
              Some (Some ((case vipOrderIds u of None \<Rightarrow> [] | Some ids \<Rightarrow> ids)
                          @ [order_id (orders st ! i)]))"
proof -
  let ?st1 = "\<lparr>orders = (orders st)[i := paid_order (transaction_id b) t1 (orders st ! i)],
       users = (users st)(uid \<mapsto>
                 grant_vip t2 (property a ''productType'') (order_id (orders st ! i)) u)\<rparr>"
  have r1: "handlePaymentCallback md5hex JSON_parse key t1 t2 b st = (SUCCESS, ?st1)"
    by (rule handle_pending_user [where JSON_parse = JSON_parse and st = st, OF assms])
  have i: "i < length (orders st)"
    using query_first_Some [OF assms(5)] by simp
  have q: "query_first (orders ?st1) (out_trade_no b) = Some i"
    using i assms(5) by (simp add: query_first_update paid_order_def)
  have paid: "status (orders ?st1 ! i) = ''paid''"
    using i by (simp add: paid_order_def)
  from assms(3) have "a \<noteq> JNull" by auto
  then have r2: "handlePaymentCallback md5hex JSON_parse key t3 t4 b ?st1 = (SUCCESS, ?st1)"
    by (rule handle_paid [where JSON_parse = JSON_parse, OF assms(1,2) _ q paid])
  have o1: "orders ?st1 = (orders st)[i := paid_order (transaction_id b) t1 (orders st ! i)]"
    by simp
  have u1: "map_option vipOrderIds (users ?st1 uid) =
              Some (Some ((case vipOrderIds u of None \<Rightarrow> [] | Some ids \<Rightarrow> ids)
                          @ [order_id (orders st ! i)]))"
    by (simp add: grant_vip_fields)
  show ?thesis
    unfolding Let_def r1 snd_conv fst_conv r2
    by (intro conjI refl o1 paid u1)
qed

text \<open>The scenario, delivered at times 100 and 200.\<close>

theorem duplicate_delivery_idempotent_witness:
  "fst (handlePaymentCallback example_md5hex example_JSON_parse ''s3cr3t'' 100 101
          (example_body lifetime_attach) (example_store ''pending'')) = SUCCESS \<and>
   handlePaymentCallback example_md5hex example_JSON_parse ''s3cr3t'' 200 201
     (example_body lifetime_attach)
     (snd (handlePaymentCallback example_md5hex example_JSON_parse ''s3cr3t'' 100 101
             (example_body lifetime_attach) (example_store ''pending'')))
   = (SUCCESS,
      \<lparr>orders = [paid_order (Str ''tx1'') 100 (example_order ''pending''), expired_order],
       users = [''u1'' \<mapsto> \<lparr>vipType = Some (JString ''lifetime''), vipPurchaseTime = Some 101,
                            vipExpireTime = None, vipOrderIds = Some [''o1'']\<rparr>]\<rparr>)"
proof -
  let ?r1 = "handlePaymentCallback example_md5hex example_JSON_parse ''s3cr3t'' 100 101
          (example_body lifetime_attach) (example_store ''pending'')"
  let ?r2 = "handlePaymentCallback example_md5hex example_JSON_parse ''s3cr3t'' 200 201
          (example_body lifetime_attach) (snd ?r1)"
  have u: "users (example_store ''pending'') ''u1'' = Some example_user"
    by (simp add: example_users)
  have p: "property (JObject [(''userId'', JString ''u1''), (''productType'', JString ''lifetime'')])
             ''userId'' = Some (JString ''u1'')"
    by simp
  from duplicate_delivery_idempotent
    [where JSON_parse = example_JSON_parse and st = "example_store ''pending''"
       and ?t1.0 = 100 and ?t2.0 = 101 and ?t3.0 = 200 and ?t4.0 = 201,
     OF example_signed example_parse p u example_query example_status]
  have both: "fst ?r1 = SUCCESS \<and> fst ?r2 = SUCCESS \<and> snd ?r2 = snd ?r1"
    by (simp add: Let_def)
  have first: "?r1 = (SUCCESS,
      \<lparr>orders = [paid_order (Str ''tx1'') 100 (example_order ''pending''), expired_order],
       users = [''u1'' \<mapsto> \<lparr>vipType = Some (JString ''lifetime''), vipPurchaseTime = Some 101,
                            vipExpireTime = None, vipOrderIds = Some [''o1'']\<rparr>]\<rparr>)"
    by (simp add: handle_pending_user [where JSON_parse = example_JSON_parse,
            OF example_signed example_parse p u example_query example_status]
          example_orders example_users example_transaction_id grant_vip_fields
          example_user_def example_order_def)
  from both have "?r2 = (SUCCESS, snd ?r1)"
    by (metis prod.collapse)
  with both first show ?thesis
    by simp
qed

text \<open>
  C3: a valid callback for a pending order, whose attachment names a user of whom the
  store has no record, should move the order to paid, write no user record and be
  answered with SUCCESS. The handler does the first two and then answers FAIL: in the
  scenario with a store without users the order is saved as paid, \<open>userQuery.get\<close>
  fails, and the outer \<open>catch\<close> sends FAIL.
\<close>

theorem missing_user_paid_but_rejected:
  "correctly_signed example_md5hex ''s3cr3t'' (example_body lifetime_attach) \<and>
   example_JSON_parse (to_string (attach (example_body lifetime_attach)))
     = Some (JObject [(''userId'', JString ''u1''), (''productType'', JString ''lifetime'')]) \<and>
   users ((example_store ''pending'')\<lparr>users := Map.empty\<rparr>) ''u1'' = None \<and>
   status (orders ((example_store ''pending'')\<lparr>users := Map.empty\<rparr>) ! 0) = ''pending'' \<and>
   handlePaymentCallback example_md5hex example_JSON_parse ''s3cr3t'' 100 101
     (example_body lifetime_attach) ((example_store ''pending'')\<lparr>users := Map.empty\<rparr>)
   = (FAIL,
      \<lparr>orders = [\<lparr>order_id = ''o1'', outTradeNo = ''VIP_u1_1'', status = ''paid'',
                   transactionId = Some (Str ''tx1''), paidAt = Some 100\<rparr>, expired_order],
       users = Map.empty\<rparr>)"
proof -
  let ?st = "(example_store ''pending'')\<lparr>users := Map.empty\<rparr>"
  have p: "property (JObject [(''userId'', JString ''u1''), (''productType'', JString ''lifetime'')])
             ''userId'' = Some (JString ''u1'')"
    by simp
  have u: "users ?st ''u1'' = None" by simp
  have q: "query_first (orders ?st) (out_trade_no (example_body lifetime_attach)) = Some 0"
    using example_query [of "''pending''" lifetime_attach] by simp
  have s: "status (orders ?st ! 0) = ''pending''"
    by (simp add: example_status)
  have r: "handlePaymentCallback example_md5hex example_JSON_parse ''s3cr3t'' 100 101
     (example_body lifetime_attach) ?st
   = (FAIL,
      \<lparr>orders = [\<lparr>order_id = ''o1'', outTradeNo = ''VIP_u1_1'', status = ''paid'',
                   transactionId = Some (Str ''tx1''), paidAt = Some 100\<rparr>, expired_order],
       users = Map.empty\<rparr>)"
    by (simp add: handle_pending_missing_user [where JSON_parse = example_JSON_parse,
            OF example_signed example_parse p u q s]
          example_orders example_transaction_id paid_order_def example_order_def)
  show ?thesis
    by (intro conjI example_signed example_parse u s r)
qed

text \<open>
  C5: when the \<open>sign\<close> of the payload is not the signature recomputed over
  \<open>out_trade_no\<close>, \<open>transaction_id\<close> and \<open>total_fee\<close> with the secret, or when the store
  has no order with the merchant order number, the handler answers FAIL and the store
  stays as it is. In particular a correct signature with one character replaced by
  another is refused.
\<close>

theorem forged_or_unknown_rejected:
  "(sign b \<noteq> Str (calculateSign md5hex
       [(''out_trade_no'', out_trade_no b), (''transaction_id'', transaction_id b),
        (''total_fee'', total_fee b)] key)
    \<or> (\<forall>ord \<in> set (orders st). out_trade_no b \<noteq> Str (outTradeNo ord))
    \<longrightarrow> handlePaymentCallback md5hex JSON_parse key t_paid t_vip b st = (FAIL, st))
   \<and> (correctly_signed md5hex key b' \<and> sign b' = Str s \<and> n < length s \<and> c \<noteq> s ! n
    \<longrightarrow> handlePaymentCallback md5hex JSON_parse key t_paid t_vip (b'\<lparr>sign := Str (s[n := c])\<rparr>) st
        = (FAIL, st))"
proof (intro conjI impI)
  assume "sign b \<noteq> Str (calculateSign md5hex
       [(''out_trade_no'', out_trade_no b), (''transaction_id'', transaction_id b),
        (''total_fee'', total_fee b)] key)
    \<or> (\<forall>ord \<in> set (orders st). out_trade_no b \<noteq> Str (outTradeNo ord))"
  then consider "\<not> correctly_signed md5hex key b"
    | "query_first (orders st) (out_trade_no b) = None"
    unfolding correctly_signed_def query_first_def first_index_None by auto
  then show "handlePaymentCallback md5hex JSON_parse key t_paid t_vip b st = (FAIL, st)"
  proof cases
    case 1
    then show ?thesis by (rule handle_bad_sign)
  next
    case 2
    then show ?thesis by (rule handle_no_order)
  qed
next
  assume h: "correctly_signed md5hex key b' \<and> sign b' = Str s \<and> n < length s \<and> c \<noteq> s ! n"
  then have "s[n := c] \<noteq> s"
    by (metis nth_list_update_eq)
  with h have "\<not> correctly_signed md5hex key (b'\<lparr>sign := Str (s[n := c])\<rparr>)"
    by (auto simp: correctly_signed_def)
  then show "handlePaymentCallback md5hex JSON_parse key t_paid t_vip (b'\<lparr>sign := Str (s[n := c])\<rparr>) st
        = (FAIL, st)"
    by (rule handle_bad_sign)
qed

text \<open>
  The scenario with the first character of the signature replaced, and the scenario in
  a store without orders.
\<close>

theorem forged_or_unknown_rejected_witness:
  "handlePaymentCallback example_md5hex example_JSON_parse ''s3cr3t'' 100 101
     ((example_body lifetime_attach)\<lparr>sign := Str ''43063F2753DAA2C7DEFEA5C64C8A05A0''\<rparr>)
     (example_store ''pending'')
   = (FAIL, example_store ''pending'') \<and>
   handlePaymentCallback example_md5hex example_JSON_parse ''s3cr3t'' 100 101
     (example_body lifetime_attach) ((example_store ''pending'')\<lparr>orders := []\<rparr>)
   = (FAIL, (example_store ''pending'')\<lparr>orders := []\<rparr>)"
proof -
  let ?sig = "''33063F2753DAA2C7DEFEA5C64C8A05A0''"
  have s: "sign (example_body lifetime_attach) = Str ?sig"
    by (simp add: example_body_def)
  have n: "0 < length ?sig" by simp
  have c: "CHR ''4'' \<noteq> ?sig ! 0" by simp
  have q: "\<forall>ord \<in> set (orders ((example_store ''pending'')\<lparr>orders := []\<rparr>)).
             out_trade_no (example_body lifetime_attach) \<noteq> Str (outTradeNo ord)"
    by simp
  have u: "handlePaymentCallback example_md5hex example_JSON_parse ''s3cr3t'' 100 101
     (example_body lifetime_attach) ((example_store ''pending'')\<lparr>orders := []\<rparr>)
   = (FAIL, (example_store ''pending'')\<lparr>orders := []\<rparr>)"
    using forged_or_unknown_rejected
      [where md5hex = example_md5hex and JSON_parse = example_JSON_parse and key = "''s3cr3t''"
         and b = "example_body lifetime_attach"
         and st = "(example_store ''pending'')\<lparr>orders := []\<rparr>", THEN conjunct1] q
    by blast
  have "handlePaymentCallback example_md5hex example_JSON_parse ''s3cr3t'' 100 101
     ((example_body lifetime_attach)\<lparr>sign := Str (?sig[0 := CHR ''4''])\<rparr>)
     (example_store ''pending'')
   = (FAIL, example_store ''pending'')"
    using forged_or_unknown_rejected
      [where md5hex = example_md5hex and JSON_parse = example_JSON_parse and key = "''s3cr3t''"
         and st = "example_store ''pending''"
         and b' = "example_body lifetime_attach" and s = ?sig and n = 0 and c = "CHR ''4''",
       THEN conjunct2] example_signed [of lifetime_attach] s n c
    by blast
  then have f: "handlePaymentCallback example_md5hex example_JSON_parse ''s3cr3t'' 100 101
     ((example_body lifetime_attach)\<lparr>sign := Str ''43063F2753DAA2C7DEFEA5C64C8A05A0''\<rparr>)
     (example_store ''pending'')
   = (FAIL, example_store ''pending'')"
    by simp
  show ?thesis
    by (intro conjI f u)
qed

text \<open>
  C6, as the handler has it: when \<open>JSON.parse\<close> throws on the attachment, or returns
  \<open>null\<close>, the handler answers FAIL and the store stays as it is. (The handler does not
  check that the parsed value has the fields \<open>userId\<close> and \<open>productType\<close>.)
\<close>

theorem unparseable_attachment_rejected:
  assumes "JSON_parse (to_string (attach b)) = None \<or> JSON_parse (to_string (attach b)) = Some JNull"
  shows "handlePaymentCallback md5hex JSON_parse key t_paid t_vip b st = (FAIL, st)"
proof (cases "correctly_signed md5hex key b")
  case False
  then show ?thesis
    by (rule handle_bad_sign)
next
  case True
  show ?thesis
  proof (cases "JSON_parse (to_string (attach b))")
    case None
    then show ?thesis
      by (simp add: handlePaymentCallback_def Let_def)
  next
    case (Some a)
    with assms have "a = JNull"
      by simp
    with Some show ?thesis
      by (simp add: handlePaymentCallback_def Let_def)
  qed
qed

text \<open>The scenario with the attachment \<open>not json\<close>, and with the attachment \<open>null\<close>.\<close>

theorem unparseable_attachment_rejected_witness:
  "example_JSON_parse (to_string (attach (example_body ''not json''))) = None \<and>
   handlePaymentCallback example_md5hex example_JSON_parse ''s3cr3t'' 100 101
     (example_body ''not json'') (example_store ''pending'')
   = (FAIL, example_store ''pending'') \<and>
   example_JSON_parse (to_string (attach (example_body ''null''))) = Some JNull \<and>
   handlePaymentCallback example_md5hex example_JSON_parse ''s3cr3t'' 100 101
     (example_body ''null'') (example_store ''pending'')
   = (FAIL, example_store ''pending'')"
proof -
  have p: "example_JSON_parse (to_string (attach (example_body ''not json''))) = None"
    by (simp add: example_body_def example_JSON_parse_def JSON_parse_table_def)
  then have "example_JSON_parse (to_string (attach (example_body ''not json''))) = None \<or>
      example_JSON_parse (to_string (attach (example_body ''not json''))) = Some JNull"
    by (rule disjI1)
  then have r: "handlePaymentCallback example_md5hex example_JSON_parse ''s3cr3t'' 100 101
     (example_body ''not json'') (example_store ''pending'')
   = (FAIL, example_store ''pending'')"
    by (rule unparseable_attachment_rejected [where JSON_parse = example_JSON_parse])
  have p': "example_JSON_parse (to_string (attach (example_body ''null''))) = Some JNull"
    by (simp add: example_body_def example_JSON_parse_def JSON_parse_table_def)
  then have "example_JSON_parse (to_string (attach (example_body ''null''))) = None \<or>
      example_JSON_parse (to_string (attach (example_body ''null''))) = Some JNull"
    by (rule disjI2)
  then have r': "handlePaymentCallback example_md5hex example_JSON_parse ''s3cr3t'' 100 101
     (example_body ''null'') (example_store ''pending'')
   = (FAIL, example_store ''pending'')"
    by (rule unparseable_attachment_rejected [where JSON_parse = example_JSON_parse])
  show ?thesis
    by (intro conjI p r p' r')
qed

text \<open>
  C6 as it is stated fails: an attachment that parses and has no \<open>productType\<close> does
  not stop the handler, and the matched order of the scenario is written: its status
  becomes \<open>paid\<close>, with the transaction id and the payment time.
\<close>

theorem attachment_without_productType_order_paid:
  "example_JSON_parse (to_string (attach (example_body userId_only_attach)))
     = Some (JObject [(''userId'', JString ''u1'')]) \<and>
   property (JObject [(''userId'', JString ''u1'')]) ''productType'' = None \<and>
   orders (snd (handlePaymentCallback example_md5hex example_JSON_parse ''s3cr3t'' 100 101
                  (example_body userId_only_attach) (example_store ''pending'')))
     = [\<lparr>order_id = ''o1'', outTradeNo = ''VIP_u1_1'', status = ''paid'',
         transactionId = Some (Str ''tx1''), paidAt = Some 100\<rparr>, expired_order] \<and>
   handlePaymentCallback example_md5hex example_JSON_parse ''s3cr3t'' 100 101
     (example_body userId_only_attach) (example_store ''pending'')
     \<noteq> (FAIL, example_store ''pending'')"
proof -
  let ?a = "JObject [(''userId'', JString ''u1'')]"
  have p: "example_JSON_parse (to_string (attach (example_body userId_only_attach))) = Some ?a"
    by (simp add: example_body_def userId_only_attach_def example_JSON_parse_def
          JSON_parse_table_def)
  have f: "property ?a ''userId'' = Some (JString ''u1'')" by simp
  have u: "users (example_store ''pending'') ''u1'' = Some example_user"
    by (simp add: example_users)
  have r: "orders (snd (handlePaymentCallback example_md5hex example_JSON_parse ''s3cr3t'' 100 101
                  (example_body userId_only_attach) (example_store ''pending'')))
     = [\<lparr>order_id = ''o1'', outTradeNo = ''VIP_u1_1'', status = ''paid'',
         transactionId = Some (Str ''tx1''), paidAt = Some 100\<rparr>, expired_order]"
    by (simp add: handle_pending_user [where JSON_parse = example_JSON_parse,
            OF example_signed p f u example_query example_status]
          example_orders example_transaction_id paid_order_def example_order_def)
  have "orders (example_store ''pending'') \<noteq>
          [\<lparr>order_id = ''o1'', outTradeNo = ''VIP_u1_1'', status = ''paid'',
            transactionId = Some (Str ''tx1''), paidAt = Some 100\<rparr>, expired_order]"
    by (simp add: example_orders example_order_def)
  with r have n: "handlePaymentCallback example_md5hex example_JSON_parse ''s3cr3t'' 100 101
     (example_body userId_only_attach) (example_store ''pending'')
     \<noteq> (FAIL, example_store ''pending'')"
    by (metis snd_conv)
  have m: "property ?a ''productType'' = None" by simp
  show ?thesis
    by (intro conjI p m r n)
qed

text \<open>
  C7, as the handler has it: whatever the store and the sequence of deliveries, the
  number of orders stays, and for every order: its status is as before, or was
  \<open>pending\<close> and is \<open>paid\<close>; an order that was not pending (paid, cancelled, expired) is
  as before in every field; an order whose status is as before is as before in every
  field, so that \<open>transactionId\<close> and \<open>paidAt\<close> are written only with the transition; an
  order whose status changed has \<open>paidAt\<close> set, and has \<open>transactionId\<close> set when every
  delivered body has a transaction id; "\<open>paidAt\<close> is set exactly when the order is paid"
  and "\<open>transactionId\<close> is set only when the order is paid" are kept; and the invariant
  with both attributes is kept when every delivered body has a transaction id.
\<close>

theorem order_lifecycle:
  "length (orders (deliver_all md5hex JSON_parse key ds st)) = length (orders st) \<and>
   (\<forall>i < length (orders st).
      (status (orders (deliver_all md5hex JSON_parse key ds st) ! i) = status (orders st ! i) \<or>
       status (orders st ! i) = ''pending'' \<and>
       status (orders (deliver_all md5hex JSON_parse key ds st) ! i) = ''paid'') \<and>
      (status (orders st ! i) \<noteq> ''pending'' \<longrightarrow>
         orders (deliver_all md5hex JSON_parse key ds st) ! i = orders st ! i) \<and>
      (status (orders (deliver_all md5hex JSON_parse key ds st) ! i) = status (orders st ! i) \<longrightarrow>
         orders (deliver_all md5hex JSON_parse key ds st) ! i = orders st ! i) \<and>
      (status (orders (deliver_all md5hex JSON_parse key ds st) ! i) \<noteq> status (orders st ! i) \<longrightarrow>
         paidAt (orders (deliver_all md5hex JSON_parse key ds st) ! i) \<noteq> None \<and>
         ((\<forall>d \<in> set ds. carries_transaction_id d) \<longrightarrow>
            has_value (transactionId (orders (deliver_all md5hex JSON_parse key ds st) ! i)))) \<and>
      ((paidAt (orders st ! i) \<noteq> None \<longleftrightarrow> status (orders st ! i) = ''paid'') \<longrightarrow>
         (paidAt (orders (deliver_all md5hex JSON_parse key ds st) ! i) \<noteq> None \<longleftrightarrow>
          status (orders (deliver_all md5hex JSON_parse key ds st) ! i) = ''paid'')) \<and>
      ((has_value (transactionId (orders st ! i)) \<longrightarrow> status (orders st ! i) = ''paid'') \<longrightarrow>
         (has_value (transactionId (orders (deliver_all md5hex JSON_parse key ds st) ! i)) \<longrightarrow>
          status (orders (deliver_all md5hex JSON_parse key ds st) ! i) = ''paid'')) \<and>
      (consistent (orders st ! i) \<and> (\<forall>d \<in> set ds. carries_transaction_id d) \<longrightarrow>
         consistent (orders (deliver_all md5hex JSON_parse key ds st) ! i)))"
  (is "_ \<and> (\<forall>i < _. ?P i)")
proof -
  let ?st' = "deliver_all md5hex JSON_parse key ds st"
  let ?T = "delivered_id ` set ds"
  have len: "length (orders ?st') = length (orders st)"
    and ev: "\<And>i. i < length (orders st) \<Longrightarrow> evolves ?T (orders st ! i) (orders ?st' ! i)"
    using deliver_all_evolves [of md5hex JSON_parse key ds st] by auto
  have ids: "\<forall>tid \<in> ?T. tid \<noteq> Undefined \<and> tid \<noteq> Null"
    if "\<forall>d \<in> set ds. carries_transaction_id d"
  proof
    fix tid assume "tid \<in> ?T"
    then obtain d where d: "d \<in> set ds" "tid = delivered_id d"
      by blast
    with that have "carries_transaction_id d"
      by blast
    with d(2) show "tid \<noteq> Undefined \<and> tid \<noteq> Null"
      by (cases d) simp
  qed
  have step: "\<And>a b. evolves ?T a b \<Longrightarrow>
      (status b = status a \<or> status a = ''pending'' \<and> status b = ''paid'') \<and>
      (status a \<noteq> ''pending'' \<longrightarrow> b = a) \<and>
      (status b = status a \<longrightarrow> b = a) \<and>
      (status b \<noteq> status a \<longrightarrow> paidAt b \<noteq> None \<and>
         ((\<forall>tid \<in> ?T. tid \<noteq> Undefined \<and> tid \<noteq> Null) \<longrightarrow> has_value (transactionId b))) \<and>
      ((paidAt a \<noteq> None \<longleftrightarrow> status a = ''paid'') \<longrightarrow> (paidAt b \<noteq> None \<longleftrightarrow> status b = ''paid'')) \<and>
      ((has_value (transactionId a) \<longrightarrow> status a = ''paid'') \<longrightarrow>
         (has_value (transactionId b) \<longrightarrow> status b = ''paid'')) \<and>
      (consistent a \<and> (\<forall>tid \<in> ?T. tid \<noteq> Undefined \<and> tid \<noteq> Null) \<longrightarrow> consistent b)"
    by (auto simp: evolves_def paid_order_def consistent_def has_value_def)
  have "?P i" if "i < length (orders st)" for i
    using step [OF ev [OF that]] ids by blast
  with len show ?thesis
    by blast
qed

text \<open>
  The scenario delivered twice: the first order is paid and keeps the invariant, the
  expired order is as before.
\<close>

theorem order_lifecycle_witness:
  "orders (deliver_all example_md5hex example_JSON_parse ''s3cr3t''
             [(100, 101, example_body lifetime_attach), (200, 201, example_body lifetime_attach)]
             (example_store ''pending''))
   = [\<lparr>order_id = ''o1'', outTradeNo = ''VIP_u1_1'', status = ''paid'',
       transactionId = Some (Str ''tx1''), paidAt = Some 100\<rparr>, expired_order] \<and>
   consistent (example_order ''pending'') \<and>
   carries_transaction_id (100, 101, example_body lifetime_attach) \<and>
   carries_transaction_id (200, 201, example_body lifetime_attach) \<and>
   consistent (orders (deliver_all example_md5hex example_JSON_parse ''s3cr3t''
             [(100, 101, example_body lifetime_attach), (200, 201, example_body lifetime_attach)]
             (example_store ''pending'')) ! 0) \<and>
   orders (deliver_all example_md5hex example_JSON_parse ''s3cr3t''
             [(100, 101, example_body lifetime_attach), (200, 201, example_body lifetime_attach)]
             (example_store ''pending'')) ! 1 = expired_order"
proof -
  let ?ds = "[(100, 101, example_body lifetime_attach), (200, 201, example_body lifetime_attach)]"
  let ?st' = "deliver_all example_md5hex example_JSON_parse ''s3cr3t'' ?ds (example_store ''pending'')"
  have run: "?st' = example_paid_store"
    by (simp add: example_first_delivery example_second_delivery)
  have c0: "consistent (orders (example_store ''pending'') ! 0)"
    by (simp add: consistent_def has_value_def example_orders example_order_def)
  have s1: "status (orders (example_store ''pending'') ! 1) \<noteq> ''pending''"
    by (simp add: example_orders expired_order_def)
  have ca: "\<forall>d \<in> set ?ds. carries_transaction_id d"
    by (simp add: example_transaction_id)
  from order_lifecycle [of example_md5hex example_JSON_parse "''s3cr3t''" ?ds
      "example_store ''pending''"]
  have all: "\<forall>i < length (orders (example_store ''pending'')).
      (status (orders (example_store ''pending'') ! i) \<noteq> ''pending'' \<longrightarrow>
         orders ?st' ! i = orders (example_store ''pending'') ! i) \<and>
      (consistent (orders (example_store ''pending'') ! i) \<and>
       (\<forall>d \<in> set ?ds. carries_transaction_id d) \<longrightarrow> consistent (orders ?st' ! i))"
    by blast
  have "(0::nat) < length (orders (example_store ''pending''))"
    by (simp add: example_orders)
  with all c0 ca have k0: "consistent (orders ?st' ! 0)"
    by blast
  have "(1::nat) < length (orders (example_store ''pending''))"
    by (simp add: example_orders)
  with all s1 have "orders ?st' ! 1 = orders (example_store ''pending'') ! 1"
    by blast
  then have k1: "orders ?st' ! 1 = expired_order"
    by (simp add: example_orders)
  have o: "orders ?st' = [\<lparr>order_id = ''o1'', outTradeNo = ''VIP_u1_1'', status = ''paid'',
       transactionId = Some (Str ''tx1''), paidAt = Some 100\<rparr>, expired_order]"
    unfolding run by (simp add: example_paid_store_def)
  have c: "consistent (example_order ''pending'')"
    using c0 by (simp add: example_orders)
  have c1: "carries_transaction_id (100, 101, example_body lifetime_attach)"
    and c2: "carries_transaction_id (200, 201, example_body lifetime_attach)"
    using ca by simp_all
  show ?thesis
    by (intro conjI o c c1 c2 k0 k1)
qed

text \<open>
  C7 as it is stated fails: the callback of the scenario without a transaction id is
  correctly signed, since the signature leaves out a field that is \<open>undefined\<close>. Its
  delivery makes the order paid and writes \<open>paidAt\<close>, while \<open>transactionId\<close> stays
  without a value: the order had the invariant and has lost it.
\<close>

theorem paid_without_transaction_id:
  "correctly_signed example_md5hex ''s3cr3t'' body_without_transaction_id \<and>
   consistent (orders (example_store ''pending'') ! 0) \<and>
   orders (deliver_all example_md5hex example_JSON_parse ''s3cr3t''
             [(100, 101, body_without_transaction_id)] (example_store ''pending''))
   = [\<lparr>order_id = ''o1'', outTradeNo = ''VIP_u1_1'', status = ''paid'',
       transactionId = None, paidAt = Some 100\<rparr>, expired_order] \<and>
   \<not> consistent (orders (deliver_all example_md5hex example_JSON_parse ''s3cr3t''
             [(100, 101, body_without_transaction_id)] (example_store ''pending'')) ! 0)"
proof -
  let ?b = body_without_transaction_id
  let ?a = "JObject [(''userId'', JString ''u1''), (''productType'', JString ''lifetime'')]"
  have f: "fullStr [(''out_trade_no'', Str ''VIP_u1_1''), (''transaction_id'', Undefined),
                    (''total_fee'', Str ''6900'')] ''s3cr3t''
           = ''out_trade_no=VIP_u1_1&total_fee=6900&key=s3cr3t''"
    by (simp add: fullStr_def signStr_def param_at_def)
  have g: "correctly_signed example_md5hex ''s3cr3t'' ?b"
    unfolding correctly_signed_def calculateSign_def
    by (simp add: body_without_transaction_id_def f)
       (simp add: example_md5hex_def md5hex_table_def toUpperCase_def upper_char_def)
  have pa: "example_JSON_parse (to_string (attach ?b)) = Some ?a"
    by (simp add: body_without_transaction_id_def lifetime_attach_def example_JSON_parse_def
          JSON_parse_table_def)
  have p: "property ?a ''userId'' = Some (JString ''u1'')" by simp
  have u: "users (example_store ''pending'') ''u1'' = Some example_user"
    by (simp add: example_users)
  have q: "query_first (orders (example_store ''pending'')) (out_trade_no ?b) = Some 0"
    by (simp add: query_first_def example_store_def example_order_def
          body_without_transaction_id_def)
  have c0: "consistent (orders (example_store ''pending'') ! 0)"
    by (simp add: consistent_def has_value_def example_orders example_order_def)
  have o: "orders (deliver_all example_md5hex example_JSON_parse ''s3cr3t''
             [(100, 101, ?b)] (example_store ''pending''))
   = [\<lparr>order_id = ''o1'', outTradeNo = ''VIP_u1_1'', status = ''paid'',
       transactionId = None, paidAt = Some 100\<rparr>, expired_order]"
    unfolding deliver_all.simps deliver.simps
      handle_pending_user [where JSON_parse = example_JSON_parse, OF g pa p u q example_status]
    by (simp add: example_orders paid_order_def example_order_def
          body_without_transaction_id_def)
  have n: "\<not> consistent (orders (deliver_all example_md5hex example_JSON_parse ''s3cr3t''
             [(100, 101, ?b)] (example_store ''pending'')) ! 0)"
    unfolding o by (simp add: consistent_def has_value_def)
  show ?thesis
    by (intro conjI g c0 o n)
qed

text \<open>
  C8, as the handler has it: when the handler makes the transition from pending to paid
  and the store has a record of the user the attachment names, the record afterwards
  has \<open>vipType\<close> equal to the decoded \<open>productType\<close> when the attachment has one, and
  as before when it has none; \<open>vipPurchaseTime\<close> equal to the current time;
  \<open>vipExpireTime\<close> null when the product type is \<open>lifetime\<close> (and as before otherwise);
  and \<open>vipOrderIds\<close> equal to the old sequence with the order's id appended; every other
  user record is as before. On every other path no user record is written: a change of
  the user records implies the conditions of the transition.
\<close>

theorem entitlement_written_on_transition_only:
  "(correctly_signed md5hex key b \<and> JSON_parse (to_string (attach b)) = Some a \<and>
    query_first (orders st) (out_trade_no b) = Some i \<and> status (orders st ! i) = ''pending'' \<and>
    property a ''userId'' = Some (JString uid) \<and> users st uid = Some u
    \<longrightarrow> users (snd (handlePaymentCallback md5hex JSON_parse key t_paid t_vip b st)) =
        (users st)(uid \<mapsto>
          \<lparr>vipType = (case property a ''productType'' of None \<Rightarrow> vipType u | Some p \<Rightarrow> Some p),
           vipPurchaseTime = Some t_vip,
           vipExpireTime = (if property a ''productType'' = Some (JString ''lifetime'') then None
                            else vipExpireTime u),
           vipOrderIds = Some ((case vipOrderIds u of None \<Rightarrow> [] | Some ids \<Rightarrow> ids)
                               @ [order_id (orders st ! i)])\<rparr>))
   \<and> (users (snd (handlePaymentCallback md5hex JSON_parse key t_paid t_vip b' st')) \<noteq> users st'
    \<longrightarrow> correctly_signed md5hex key b' \<and>
        (\<exists>a' i' uid' u'. JSON_parse (to_string (attach b')) = Some a' \<and>
           query_first (orders st') (out_trade_no b') = Some i' \<and>
           status (orders st' ! i') = ''pending'' \<and>
           property a' ''userId'' = Some (JString uid') \<and> users st' uid' = Some u'))"
proof (rule conjI; rule impI)
  assume h: "correctly_signed md5hex key b \<and> JSON_parse (to_string (attach b)) = Some a \<and>
    query_first (orders st) (out_trade_no b) = Some i \<and> status (orders st ! i) = ''pending'' \<and>
    property a ''userId'' = Some (JString uid) \<and> users st uid = Some u"
  then have "handlePaymentCallback md5hex JSON_parse key t_paid t_vip b st =
     (SUCCESS,
      \<lparr>orders = (orders st)[i := paid_order (transaction_id b) t_paid (orders st ! i)],
       users = (users st)(uid \<mapsto>
                 grant_vip t_vip (property a ''productType'') (order_id (orders st ! i)) u)\<rparr>)"
    by (simp add: handle_pending_user [where JSON_parse = JSON_parse and a = a])
  then show "users (snd (handlePaymentCallback md5hex JSON_parse key t_paid t_vip b st)) =
        (users st)(uid \<mapsto>
          \<lparr>vipType = (case property a ''productType'' of None \<Rightarrow> vipType u | Some p \<Rightarrow> Some p),
           vipPurchaseTime = Some t_vip,
           vipExpireTime = (if property a ''productType'' = Some (JString ''lifetime'') then None
                            else vipExpireTime u),
           vipOrderIds = Some ((case vipOrderIds u of None \<Rightarrow> [] | Some ids \<Rightarrow> ids)
                               @ [order_id (orders st ! i)])\<rparr>)"
    by (simp only: snd_conv store.simps grant_vip_fields)
next
  assume "users (snd (handlePaymentCallback md5hex JSON_parse key t_paid t_vip b' st')) \<noteq> users st'"
  then show "correctly_signed md5hex key b' \<and>
        (\<exists>a' i' uid' u'. JSON_parse (to_string (attach b')) = Some a' \<and>
           query_first (orders st') (out_trade_no b') = Some i' \<and>
           status (orders st' ! i') = ''pending'' \<and>
           property a' ''userId'' = Some (JString uid') \<and> users st' uid' = Some u')"
    by (rule users_changed)
qed

text \<open>
  The scenario: the user had an expiry time and no order ids; afterwards the product
  type is \<open>lifetime\<close>, the expiry time is null and the order ids are the id of the
  order. In the store where the order is already paid the user records stay.
\<close>

theorem entitlement_written_on_transition_only_witness:
  "users (snd (handlePaymentCallback example_md5hex example_JSON_parse ''s3cr3t'' 100 101
                 (example_body lifetime_attach) (example_store ''pending'')))
   = [''u1'' \<mapsto> \<lparr>vipType = Some (JString ''lifetime''), vipPurchaseTime = Some 101,
                  vipExpireTime = None, vipOrderIds = Some [''o1'']\<rparr>] \<and>
   vipExpireTime example_user = Some 5 \<and>
   status (orders (example_store ''paid'') ! 0) \<noteq> ''pending'' \<and>
   users (snd (handlePaymentCallback example_md5hex example_JSON_parse ''s3cr3t'' 100 101
                 (example_body lifetime_attach) (example_store ''paid'')))
   = users (example_store ''paid'')"
proof -
  let ?a = "JObject [(''userId'', JString ''u1''), (''productType'', JString ''lifetime'')]"
  have p: "property ?a ''userId'' = Some (JString ''u1'')" by simp
  have u: "users (example_store ''pending'') ''u1'' = Some example_user"
    by (simp add: example_users)
  from entitlement_written_on_transition_only
    [where md5hex = example_md5hex and JSON_parse = example_JSON_parse and key = "''s3cr3t''"
       and b = "example_body lifetime_attach" and st = "example_store ''pending''"
       and a = ?a and i = 0 and uid = "''u1''" and u = example_user
       and t_paid = 100 and t_vip = 101, THEN conjunct1]
    example_signed [of lifetime_attach] example_parse
    example_query [of "''pending''" lifetime_attach] example_status [of "''pending''"] p u
  have g: "users (snd (handlePaymentCallback example_md5hex example_JSON_parse ''s3cr3t'' 100 101
                 (example_body lifetime_attach) (example_store ''pending'')))
   = [''u1'' \<mapsto> \<lparr>vipType = Some (JString ''lifetime''), vipPurchaseTime = Some 101,
                  vipExpireTime = None, vipOrderIds = Some [''o1'']\<rparr>]"
    by (simp add: example_users example_orders example_user_def example_order_def)
  have e: "vipExpireTime example_user = Some 5"
    by (simp add: example_user_def)
  have s: "status (orders (example_store ''paid'') ! 0) \<noteq> ''pending''"
    by (simp add: example_status)
  have q: "\<And>i. query_first (orders (example_store ''paid''))
             (out_trade_no (example_body lifetime_attach)) = Some i \<Longrightarrow> i = 0"
    by (simp add: example_query)
  from entitlement_written_on_transition_only
    [where md5hex = example_md5hex and JSON_parse = example_JSON_parse and key = "''s3cr3t''"
       and b' = "example_body lifetime_attach" and st' = "example_store ''paid''"
       and t_paid = 100 and t_vip = 101, THEN conjunct2] s q
  have k: "users (snd (handlePaymentCallback example_md5hex example_JSON_parse ''s3cr3t'' 100 101
                 (example_body lifetime_attach) (example_store ''paid'')))
   = users (example_store ''paid'')"
    by blast
  show ?thesis
    by (intro conjI g e s k)
qed

text \<open>
  C8 as it is stated fails: the attachment is not covered by the signature, and a valid
  callback can come without \<open>productType\<close>. For a user who has the product type
  \<open>monthly\<close> already, the transition is made, the order id is appended, and \<open>vipType\<close> is
  still \<open>monthly\<close>, which is not the decoded product type (there is none).
\<close>

theorem absent_productType_keeps_vipType:
  "correctly_signed example_md5hex ''s3cr3t'' (example_body userId_only_attach) \<and>
   example_JSON_parse (to_string (attach (example_body userId_only_attach)))
     = Some (JObject [(''userId'', JString ''u1'')]) \<and>
   property (JObject [(''userId'', JString ''u1'')]) ''productType'' = None \<and>
   status (orders ((example_store ''pending'')\<lparr>users := [''u1'' \<mapsto> monthly_user]\<rparr>) ! 0)
     = ''pending'' \<and>
   handlePaymentCallback example_md5hex example_JSON_parse ''s3cr3t'' 100 101
     (example_body userId_only_attach)
     ((example_store ''pending'')\<lparr>users := [''u1'' \<mapsto> monthly_user]\<rparr>)
   = (SUCCESS,
      \<lparr>orders = [\<lparr>order_id = ''o1'', outTradeNo = ''VIP_u1_1'', status = ''paid'',
                   transactionId = Some (Str ''tx1''), paidAt = Some 100\<rparr>, expired_order],
       users = [''u1'' \<mapsto> \<lparr>vipType = Some (JString ''monthly''), vipPurchaseTime = Some 101,
                            vipExpireTime = Some 9, vipOrderIds = Some [''o0'', ''o1'']\<rparr>]\<rparr>)"
proof -
  let ?a = "JObject [(''userId'', JString ''u1'')]"
  let ?st = "(example_store ''pending'')\<lparr>users := [''u1'' \<mapsto> monthly_user]\<rparr>"
  have pa: "example_JSON_parse (to_string (attach (example_body userId_only_attach))) = Some ?a"
    by (simp add: example_body_def userId_only_attach_def example_JSON_parse_def
          JSON_parse_table_def)
  have p: "property ?a ''userId'' = Some (JString ''u1'')" by simp
  have m: "property ?a ''productType'' = None" by simp
  have u: "users ?st ''u1'' = Some monthly_user" by simp
  have q: "query_first (orders ?st) (out_trade_no (example_body userId_only_attach)) = Some 0"
    using example_query [of "''pending''" userId_only_attach] by simp
  have s: "status (orders ?st ! 0) = ''pending''"
    by (simp add: example_status)
  have r: "handlePaymentCallback example_md5hex example_JSON_parse ''s3cr3t'' 100 101
     (example_body userId_only_attach) ?st
   = (SUCCESS,
      \<lparr>orders = [\<lparr>order_id = ''o1'', outTradeNo = ''VIP_u1_1'', status = ''paid'',
                   transactionId = Some (Str ''tx1''), paidAt = Some 100\<rparr>, expired_order],
       users = [''u1'' \<mapsto> \<lparr>vipType = Some (JString ''monthly''), vipPurchaseTime = Some 101,
                            vipExpireTime = Some 9, vipOrderIds = Some [''o0'', ''o1'']\<rparr>]\<rparr>)"
    unfolding handle_pending_user [where JSON_parse = example_JSON_parse,
        OF example_signed pa p u q s]
    by (simp add: example_orders example_transaction_id grant_vip_fields monthly_user_def
          paid_order_def example_order_def)
  show ?thesis
    by (intro conjI example_signed pa m s r)
qed

end
